theory Spec2Isabelle
  imports Main "HOL-Library.Word"
begin

unbundle bit_operations_syntax

section \<open>Values shared by the modules\<close>

text \<open>
  The program is Python. Its integers are unbounded (\<open>int\<close>); the only machine integers
  are the \<open>uint8\<close> channels of the NumPy images (\<open>8 word\<close>). An exception is a value of
  \<open>error\<close>, and a function that can raise returns \<open>error + 'a\<close>.
\<close>

datatype error = IndexError | Cv2Error

type_synonym point = "int \<times> int"

text \<open>A colour is a BGR triple; every colour of the program has its channels in 0..255.\<close>

type_synonym color = "8 word \<times> 8 word \<times> 8 word"

text \<open>\<open>xs[i]\<close> for an index that is not negative: out of range raises \<open>IndexError\<close>.\<close>

definition item :: "'a list \<Rightarrow> nat \<Rightarrow> error + 'a" where
  "item xs i = (if i < length xs then Inr (xs ! i) else Inl IndexError)"

section \<open>src/hand_detector.py\<close>

text \<open>
  \<open>find_position\<close> appends \<open>[id, cx, cy]\<close> for each landmark of the detected hand, so
  \<open>landmark_list\<close> is a list of triples; \<open>l[1]\<close> is the x and \<open>l[2]\<close> the y pixel
  coordinate. MediaPipe itself (\<open>find_hands\<close>, the contents of \<open>results\<close>) is outside
  the repository: the landmark list is the input of the model.
\<close>

type_synonym landmark = "int \<times> int \<times> int"

definition lm_x :: "landmark \<Rightarrow> int" where
  "lm_x l = fst (snd l)"

definition lm_y :: "landmark \<Rightarrow> int" where
  "lm_y l = snd (snd l)"

definition THUMB_TIP :: nat where "THUMB_TIP = 4"
definition INDEX_TIP :: nat where "INDEX_TIP = 8"
definition MIDDLE_TIP :: nat where "MIDDLE_TIP = 12"
definition RING_TIP :: nat where "RING_TIP = 16"
definition PINKY_TIP :: nat where "PINKY_TIP = 20"

definition TIP_IDS :: "nat list" where
  "TIP_IDS = [4, 8, 12, 16, 20]"

text \<open>
  The \<open>for tip_id in [...]\<close> loop of \<open>fingers_up\<close>: each round reads
  \<open>landmark_list[tip_id]\<close>, then \<open>landmark_list[tip_id - 2]\<close>, and appends one bit.
\<close>

fun fingers_loop :: "landmark list \<Rightarrow> nat list \<Rightarrow> int list \<Rightarrow> error + int list" where
  "fingers_loop landmark_list [] fingers = Inr fingers"
| "fingers_loop landmark_list (tip_id # rest) fingers =
     (case item landmark_list tip_id of
        Inl e \<Rightarrow> Inl e
      | Inr tip \<Rightarrow>
          (case item landmark_list (tip_id - 2) of
             Inl e \<Rightarrow> Inl e
           | Inr pip \<Rightarrow>
               fingers_loop landmark_list rest
                 (fingers @ [if lm_y tip < lm_y pip then 1 else 0])))"

definition fingers_up :: "landmark list \<Rightarrow> error + int list" where
  "fingers_up landmark_list =
     (if length landmark_list = 0 then Inr [0, 0, 0, 0, 0]
      else
        (case item landmark_list THUMB_TIP of
           Inl e \<Rightarrow> Inl e
         | Inr tip \<Rightarrow>
             (case item landmark_list (THUMB_TIP - 1) of
                Inl e \<Rightarrow> Inl e
              | Inr ip \<Rightarrow>
                  fingers_loop landmark_list [INDEX_TIP, MIDDLE_TIP, RING_TIP, PINKY_TIP]
                    ([] @ [if lm_x tip < lm_x ip then 1 else 0]))))"

text \<open>\<open>get_finger_tip\<close>: \<open>None\<close> without a hand, else the tip's \<open>(x, y)\<close>.\<close>

definition get_finger_tip :: "landmark list \<Rightarrow> nat \<Rightarrow> error + point option" where
  "get_finger_tip landmark_list finger_id =
     (if length landmark_list = 0 then Inr None
      else
        (case item TIP_IDS finger_id of
           Inl e \<Rightarrow> Inl e
         | Inr tip_id \<Rightarrow>
             (case item landmark_list tip_id of
                Inl e \<Rightarrow> Inl e
              | Inr l \<Rightarrow> Inr (Some (lm_x l, lm_y l)))))"

definition count_fingers :: "landmark list \<Rightarrow> error + int" where
  "count_fingers landmark_list =
     (case fingers_up landmark_list of Inl e \<Rightarrow> Inl e | Inr fingers \<Rightarrow> Inr (sum_list fingers))"

section \<open>src/color_palette.py\<close>

record color_box =
  x1 :: int
  x2 :: int
  y1 :: int
  y2 :: int
  color :: color
  name :: string

record ColorPalette =
  frame_width :: int
  header_height :: int
  colors :: "(string \<times> color) list"
  num_colors :: int
  box_width :: int
  color_boxes :: "color_box list"

text \<open>The \<open>for i, color in enumerate(self.colors)\<close> loop of the constructor.\<close>

fun color_boxes_loop ::
  "int \<Rightarrow> int \<Rightarrow> int \<Rightarrow> (string \<times> color) list \<Rightarrow> color_box list \<Rightarrow> color_box list" where
  "color_boxes_loop bw hh i [] boxes = boxes"
| "color_boxes_loop bw hh i ((nm, bgr) # rest) boxes =
     color_boxes_loop bw hh (i + 1) rest
       (boxes @ [\<lparr>x1 = i * bw, x2 = (i + 1) * bw, y1 = 0, y2 = hh, color = bgr, name = nm\<rparr>])"

definition palette_colors :: "(string \<times> color) list" where
  "palette_colors =
     [(''Purple'', (255, 0, 255)),
      (''Blue'', (255, 0, 0)),
      (''Green'', (0, 255, 0)),
      (''Red'', (0, 0, 255)),
      (''Yellow'', (0, 255, 255)),
      (''Eraser'', (0, 0, 0))]"

definition ColorPalette_init :: "int \<Rightarrow> int \<Rightarrow> ColorPalette" where
  "ColorPalette_init fw hh =
     (let n = int (length palette_colors);
          bw = fw div n
      in \<lparr>frame_width = fw, header_height = hh, colors = palette_colors, num_colors = n,
          box_width = bw, color_boxes = color_boxes_loop bw hh 0 palette_colors []\<rparr>)"

text \<open>The \<open>for box in self.color_boxes\<close> loop of \<open>check_selection\<close>: the first match returns.\<close>

fun check_boxes :: "color_box list \<Rightarrow> int \<Rightarrow> int \<Rightarrow> color option" where
  "check_boxes [] x y = None"
| "check_boxes (box # rest) x y =
     (if x1 box \<le> x \<and> x \<le> x2 box \<and> y1 box \<le> y \<and> y \<le> y2 box then Some (color box)
      else check_boxes rest x y)"

definition check_selection :: "ColorPalette \<Rightarrow> int \<Rightarrow> int \<Rightarrow> color option" where
  "check_selection palette x y =
     (if y > header_height palette then None else check_boxes (color_boxes palette) x y)"

definition is_in_header :: "ColorPalette \<Rightarrow> int \<Rightarrow> bool" where
  "is_in_header palette y = (y < header_height palette)"

section \<open>NumPy images and the OpenCV calls of the shells\<close>

text \<open>
  NumPy and OpenCV are libraries outside the repository; the shells use six of their
  operations, modelled here from the libraries' documentation. An image is its shape
  and a pixel function on \<open>(x, y)\<close>; only the pixels inside the shape are the array's.
\<close>

record 'a image =
  rows :: int
  cols :: int
  pix :: "point \<Rightarrow> 'a"

definition inside :: "'a image \<Rightarrow> point \<Rightarrow> bool" where
  "inside img p = (0 \<le> fst p \<and> fst p < cols img \<and> 0 \<le> snd p \<and> snd p < rows img)"

text \<open>\<open>np.zeros((h, w, 3), np.uint8)\<close>.\<close>

definition np_zeros :: "int \<Rightarrow> int \<Rightarrow> color image" where
  "np_zeros h w = \<lparr>rows = h, cols = w, pix = (\<lambda>p. (0, 0, 0))\<rparr>"

text \<open>
  \<open>cv2.line(img, pt1, pt2, color, thickness)\<close> paints, in place and clipped to the
  image, the segment from \<open>pt1\<close> to \<open>pt2\<close> with round ends, and rejects a thickness
  outside \<open>1..MAX_THICKNESS\<close>. For a thickness above 1 the library paints the band and
  the two end discs of radius \<open>(thickness + 1) div 2\<close> (an odd thickness is widened by
  one: 15 gives radius 8, 50 gives 25); thickness 1 is the thin line. The painted
  region is modelled as the pixels whose distance to the segment is at most that radius
  (half a pixel for the thin line), in integer arithmetic, squared and cleared of
  denominators. A segment from a point to itself is that point's disc.
\<close>

definition MAX_THICKNESS :: int where
  "MAX_THICKNESS = 32767"

text \<open>Twice the radius of the stroke.\<close>

definition stroke_width :: "int \<Rightarrow> int" where
  "stroke_width thickness = (if thickness \<le> 1 then 1 else 2 * ((thickness + 1) div 2))"

definition in_stroke :: "point \<Rightarrow> point \<Rightarrow> int \<Rightarrow> point \<Rightarrow> bool" where
  "in_stroke pt1 pt2 thickness p =
     (let dx = fst pt2 - fst pt1; dy = snd pt2 - snd pt1;
          qx = fst p - fst pt1; qy = snd p - snd pt1;
          rx = fst p - fst pt2; ry = snd p - snd pt2;
          len2 = dx * dx + dy * dy;
          s = qx * dx + qy * dy;
          w = stroke_width thickness
      in if s \<le> 0 then 4 * (qx * qx + qy * qy) \<le> w * w
         else if len2 \<le> s then 4 * (rx * rx + ry * ry) \<le> w * w
         else 4 * ((qx * qx + qy * qy) * len2 - s * s) \<le> w * w * len2)"

definition draw_segment :: "color image \<Rightarrow> point \<Rightarrow> point \<Rightarrow> color \<Rightarrow> int \<Rightarrow> color image" where
  "draw_segment img pt1 pt2 col thickness =
     img\<lparr>pix := (\<lambda>p. if inside img p \<and> in_stroke pt1 pt2 thickness p then col else pix img p)\<rparr>"

definition cv2_line ::
  "color image \<Rightarrow> point \<Rightarrow> point \<Rightarrow> color \<Rightarrow> int \<Rightarrow> error + color image" where
  "cv2_line img pt1 pt2 col thickness =
     (if 0 < thickness \<and> thickness \<le> MAX_THICKNESS
      then Inr (draw_segment img pt1 pt2 col thickness)
      else Inl Cv2Error)"

text \<open>
  \<open>cv2.cvtColor(img, cv2.COLOR_BGR2GRAY)\<close>: the luminance
  \<open>0.299 R + 0.587 G + 0.114 B\<close>, which the library computes for 8-bit images in
  fixed point with 15 fractional bits and rounding: the coefficients are 9798, 19235
  and 3735, whose sum is \<open>2 ^ 15\<close>.
\<close>

definition bgr2gray :: "color \<Rightarrow> 8 word" where
  "bgr2gray c =
     (case c of (b, g, r) \<Rightarrow>
        word_of_nat ((unat r * 9798 + unat g * 19235 + unat b * 3735 + 16384) div 32768))"

definition cvtColor_BGR2GRAY :: "color image \<Rightarrow> 8 word image" where
  "cvtColor_BGR2GRAY img = \<lparr>rows = rows img, cols = cols img, pix = (\<lambda>p. bgr2gray (pix img p))\<rparr>"

text \<open>\<open>cv2.threshold(src, thresh, maxval, cv2.THRESH_BINARY_INV)\<close>: 0 above the threshold, else \<open>maxval\<close>.\<close>

definition threshold_BINARY_INV :: "8 word image \<Rightarrow> nat \<Rightarrow> 8 word \<Rightarrow> 8 word image" where
  "threshold_BINARY_INV src thresh maxval =
     \<lparr>rows = rows src, cols = cols src,
      pix = (\<lambda>p. if unat (pix src p) > thresh then 0 else maxval)\<rparr>"

definition cvtColor_GRAY2BGR :: "8 word image \<Rightarrow> color image" where
  "cvtColor_GRAY2BGR img =
     \<lparr>rows = rows img, cols = cols img, pix = (\<lambda>p. (pix img p, pix img p, pix img p))\<rparr>"

definition color_and :: "color \<Rightarrow> color \<Rightarrow> color" where
  "color_and a b =
     (case a of (ab, ag, ar) \<Rightarrow> case b of (bb, bg, br) \<Rightarrow> (ab AND bb, ag AND bg, ar AND br))"

definition color_or :: "color \<Rightarrow> color \<Rightarrow> color" where
  "color_or a b =
     (case a of (ab, ag, ar) \<Rightarrow> case b of (bb, bg, br) \<Rightarrow> (ab OR bb, ag OR bg, ar OR br))"

text \<open>\<open>cv2.bitwise_and\<close> and \<open>cv2.bitwise_or\<close> of two arrays raise unless the shapes agree.\<close>

definition bitwise_and :: "color image \<Rightarrow> color image \<Rightarrow> error + color image" where
  "bitwise_and a b =
     (if rows a = rows b \<and> cols a = cols b
      then Inr \<lparr>rows = rows a, cols = cols a, pix = (\<lambda>p. color_and (pix a p) (pix b p))\<rparr>
      else Inl Cv2Error)"

definition bitwise_or :: "color image \<Rightarrow> color image \<Rightarrow> error + color image" where
  "bitwise_or a b =
     (if rows a = rows b \<and> cols a = cols b
      then Inr \<lparr>rows = rows a, cols = cols a, pix = (\<lambda>p. color_or (pix a p) (pix b p))\<rparr>
      else Inl Cv2Error)"

text \<open>
  "Merge Canvas with Frame", the same five lines in \<open>main.py\<close> (174-180) and in
  \<open>app.py\<close> (151-155).
\<close>

definition merge_canvas :: "color image \<Rightarrow> color image \<Rightarrow> error + color image" where
  "merge_canvas canvas frame =
     (let canvas_gray = cvtColor_BGR2GRAY canvas;
          canvas_inv = threshold_BINARY_INV canvas_gray 20 255;
          canvas_inv = cvtColor_GRAY2BGR canvas_inv
      in case bitwise_and frame canvas_inv of
           Inl e \<Rightarrow> Inl e
         | Inr frame1 \<Rightarrow> bitwise_or frame1 canvas)"

section \<open>main.py: the desktop shell\<close>

text \<open>
  The local variables of \<open>main\<close> that live across iterations of the \<open>while True\<close>
  loop are the state. What a frame writes on the camera image (\<open>putText\<close>, \<open>circle\<close>,
  \<open>rectangle\<close>, the palette's \<open>draw\<close>) never reaches the state and is left out, as are
  the webcam, the window and the keyboard.
\<close>

definition main_CAMERA_WIDTH :: int where "main_CAMERA_WIDTH = 1280"
definition main_CAMERA_HEIGHT :: int where "main_CAMERA_HEIGHT = 720"
definition main_BRUSH_THICKNESS :: int where "main_BRUSH_THICKNESS = 15"
definition main_ERASER_THICKNESS :: int where "main_ERASER_THICKNESS = 50"

record main_state =
  draw_color :: color
  brush_thickness :: int
  canvas :: "color image"
  prev_x :: int
  prev_y :: int

text \<open>\<open>ColorPalette(CAMERA_WIDTH)\<close>, with the default \<open>header_height=100\<close>.\<close>

definition main_palette :: ColorPalette where
  "main_palette = ColorPalette_init main_CAMERA_WIDTH 100"

text \<open>The state before the loop; \<open>COLORS['purple']\<close> is \<open>(255, 0, 255)\<close>.\<close>

definition main_init :: main_state where
  "main_init =
     \<lparr>draw_color = (255, 0, 255), brush_thickness = main_BRUSH_THICKNESS,
      canvas = np_zeros main_CAMERA_HEIGHT main_CAMERA_WIDTH, prev_x = 0, prev_y = 0\<rparr>"

text \<open>
  "Gesture Recognition" (lines 121-167): the \<open>if\<close>/\<open>elif\<close> chain on \<open>fingers\<close>. A tuple
  \<open>(x, y)\<close> is true in Python whatever its components, so \<open>if index_tip:\<close> tests for
  \<open>None\<close> only.
\<close>

definition main_gesture :: "main_state \<Rightarrow> int list \<Rightarrow> point option \<Rightarrow> error + main_state" where
  "main_gesture st fingers index_tip =
     (if fingers = [0, 1, 1, 0, 0] then
        (let st1 = st\<lparr>prev_x := 0, prev_y := 0\<rparr> in
         case index_tip of
           None \<Rightarrow> Inr st1
         | Some (x, y) \<Rightarrow>
             (case check_selection main_palette x y of
                None \<Rightarrow> Inr st1
              | Some selected \<Rightarrow> Inr (st1\<lparr>draw_color := selected\<rparr>)))
      else if fingers = [0, 1, 0, 0, 0] then
        (case index_tip of
           None \<Rightarrow> Inr st
         | Some (x, y) \<Rightarrow>
             (let st1 = (if prev_x st = 0 \<and> prev_y st = 0 then st\<lparr>prev_x := x, prev_y := y\<rparr>
                         else st)
              in case cv2_line (canvas st1) (prev_x st1, prev_y st1) (x, y)
                        (draw_color st1) (brush_thickness st1) of
                   Inl e \<Rightarrow> Inl e
                 | Inr canvas1 \<Rightarrow> Inr (st1\<lparr>canvas := canvas1, prev_x := x, prev_y := y\<rparr>)))
      else if fingers = [1, 1, 1, 1, 1] then
        Inr (st\<lparr>canvas := np_zeros main_CAMERA_HEIGHT main_CAMERA_WIDTH,
                prev_x := 0, prev_y := 0\<rparr>)
      else
        Inr (st\<lparr>prev_x := 0, prev_y := 0\<rparr>))"

text \<open>
  One iteration of the loop, from the landmark list on (lines 104-167): without a hand
  the whole block is skipped.
\<close>

definition main_frame :: "main_state \<Rightarrow> landmark list \<Rightarrow> error + main_state" where
  "main_frame st landmark_list =
     (if length landmark_list \<noteq> 0 then
        (case get_finger_tip landmark_list 1 of
           Inl e \<Rightarrow> Inl e
         | Inr index_tip \<Rightarrow>
             (case fingers_up landmark_list of
                Inl e \<Rightarrow> Inl e
              | Inr fingers \<Rightarrow>
                  (case count_fingers landmark_list of
                     Inl e \<Rightarrow> Inl e
                   | Inr finger_count \<Rightarrow> main_gesture st fingers index_tip)))
      else Inr st)"

section \<open>app.py: the Streamlit shell\<close>

text \<open>The fields of \<open>AirCanvasProcessor\<close> that \<open>recv\<close> reads and writes are the state.\<close>

definition app_CAMERA_WIDTH :: int where "app_CAMERA_WIDTH = 640"
definition app_CAMERA_HEIGHT :: int where "app_CAMERA_HEIGHT = 480"
definition app_BRUSH_THICKNESS :: int where "app_BRUSH_THICKNESS = 15"
definition app_ERASER_THICKNESS :: int where "app_ERASER_THICKNESS = 50"
definition app_MIN_BRUSH_SIZE :: int where "app_MIN_BRUSH_SIZE = 5"
definition app_MAX_BRUSH_SIZE :: int where "app_MAX_BRUSH_SIZE = 50"
definition ERASER_COLOR :: color where "ERASER_COLOR = (0, 0, 0)"

record app_state = main_state +
  is_eraser_mode :: bool
  previous_color :: color

text \<open>\<open>ColorPalette(self.CAMERA_WIDTH, header_height=80)\<close>.\<close>

definition app_palette :: ColorPalette where
  "app_palette = ColorPalette_init app_CAMERA_WIDTH 80"

definition app_init :: app_state where
  "app_init =
     \<lparr>draw_color = (255, 0, 255), brush_thickness = app_BRUSH_THICKNESS,
      canvas = np_zeros app_CAMERA_HEIGHT app_CAMERA_WIDTH, prev_x = 0, prev_y = 0,
      is_eraser_mode = False, previous_color = (255, 0, 255)\<rparr>"

text \<open>The \<open>if\<close>/\<open>elif\<close> chain of \<open>recv\<close> (lines 94-148).\<close>

definition app_gesture :: "app_state \<Rightarrow> int list \<Rightarrow> point option \<Rightarrow> error + app_state" where
  "app_gesture st fingers index_tip =
     (if fingers = [0, 1, 1, 0, 0] then
        (let st1 = st\<lparr>prev_x := 0, prev_y := 0\<rparr> in
         case index_tip of
           None \<Rightarrow> Inr st1
         | Some (x, y) \<Rightarrow>
             (case check_selection app_palette x y of
                None \<Rightarrow> Inr st1
              | Some selected \<Rightarrow>
                  (let st2 = st1\<lparr>draw_color := selected\<rparr> in
                   if selected = ERASER_COLOR
                   then Inr (st2\<lparr>is_eraser_mode := True, brush_thickness := app_ERASER_THICKNESS\<rparr>)
                   else Inr (st2\<lparr>is_eraser_mode := False, brush_thickness := app_BRUSH_THICKNESS\<rparr>))))
      else if fingers = [0, 1, 0, 0, 0] then
        (case index_tip of
           None \<Rightarrow> Inr st
         | Some (x, y) \<Rightarrow>
             (let st1 = (if prev_x st = 0 \<and> prev_y st = 0 then st\<lparr>prev_x := x, prev_y := y\<rparr>
                         else st)
              in case cv2_line (canvas st1) (prev_x st1, prev_y st1) (x, y)
                        (draw_color st1) (brush_thickness st1) of
                   Inl e \<Rightarrow> Inl e
                 | Inr canvas1 \<Rightarrow> Inr (st1\<lparr>canvas := canvas1, prev_x := x, prev_y := y\<rparr>)))
      else if fingers = [1, 1, 1, 1, 1] then
        Inr (st\<lparr>canvas := np_zeros app_CAMERA_HEIGHT app_CAMERA_WIDTH,
                prev_x := 0, prev_y := 0\<rparr>)
      else if fingers = [0, 0, 0, 0, 0] then
        Inr (st\<lparr>is_eraser_mode := True, draw_color := ERASER_COLOR,
                brush_thickness := app_ERASER_THICKNESS, prev_x := 0, prev_y := 0\<rparr>)
      else
        Inr (st\<lparr>prev_x := 0, prev_y := 0\<rparr>))"

text \<open>\<open>recv\<close> from the landmark list on (lines 81-148).\<close>

definition app_recv :: "app_state \<Rightarrow> landmark list \<Rightarrow> error + app_state" where
  "app_recv st landmark_list =
     (if length landmark_list \<noteq> 0 then
        (case get_finger_tip landmark_list 1 of
           Inl e \<Rightarrow> Inl e
         | Inr index_tip \<Rightarrow>
             (case fingers_up landmark_list of
                Inl e \<Rightarrow> Inl e
              | Inr fingers \<Rightarrow>
                  (case count_fingers landmark_list of
                     Inl e \<Rightarrow> Inl e
                   | Inr finger_count \<Rightarrow> app_gesture st fingers index_tip)))
      else Inr st)"

definition clear_canvas :: "app_state \<Rightarrow> app_state" where
  "clear_canvas st = st\<lparr>canvas := np_zeros app_CAMERA_HEIGHT app_CAMERA_WIDTH\<rparr>"

section \<open>Reference values of the statements\<close>

text \<open>
  The four finger vectors the shells compare against, and all 32 vectors of five bits.
\<close>

definition active_patterns :: "int list list" where
  "active_patterns = [[0, 1, 1, 0, 0], [0, 1, 0, 0, 0], [1, 1, 1, 1, 1], [0, 0, 0, 0, 0]]"

definition finger_up_vectors :: "int list list" where
  "finger_up_vectors = List.n_lists 5 [0, 1]"

text \<open>
  Box \<open>i\<close> as the specification words it, \<open>[i * W / N, (i + 1) * W / N]\<close> with
  \<open>N = 6\<close> and exact division, cleared of the denominator. It is the specification's
  box, not the program's: the program's boxes are \<open>color_boxes\<close>.
\<close>

definition spec_box :: "int \<Rightarrow> nat \<Rightarrow> int \<Rightarrow> bool" where
  "spec_box W i x = (int i * W \<le> 6 * x \<and> 6 * x \<le> (int i + 1) * W)"

text \<open>
  A synthetic snapshot of 21 landmarks: the index tip (8) above its PIP joint (6), the
  other three fingers folded, the thumb tip (4) to the right of its joint (3).
\<close>

definition sample_hand :: "landmark list" where
  "sample_hand =
     [(0, 300, 400), (1, 340, 380), (2, 370, 350), (3, 380, 320), (4, 385, 300),
      (5, 320, 300), (6, 320, 250), (7, 320, 220), (8, 320, 190),
      (9, 300, 300), (10, 300, 280), (11, 300, 300), (12, 300, 320),
      (13, 280, 305), (14, 280, 290), (15, 280, 310), (16, 280, 325),
      (17, 260, 315), (18, 260, 300), (19, 260, 315), (20, 260, 330)]"

text \<open>The same hand 280 pixels to the right and 90 up: its index tip is at \<open>(600, 100)\<close>.\<close>

definition sample_hand_moved :: "landmark list" where
  "sample_hand_moved = map (\<lambda>l. (fst l, lm_x l + 280, lm_y l - 90)) sample_hand"

text \<open>A camera frame that is entirely one colour.\<close>

definition solid_frame :: "int \<Rightarrow> int \<Rightarrow> color \<Rightarrow> color image" where
  "solid_frame h w c = \<lparr>rows = h, cols = w, pix = (\<lambda>p. c)\<rparr>"

section \<open>The palette: what \<open>check_selection\<close> computes\<close>

lemma color_boxes_init:
  "color_boxes (ColorPalette_init W H) =
     [\<lparr>x1 = 0, x2 = W div 6, y1 = 0, y2 = H, color = (255, 0, 255), name = ''Purple''\<rparr>,
      \<lparr>x1 = W div 6, x2 = 2 * (W div 6), y1 = 0, y2 = H, color = (255, 0, 0), name = ''Blue''\<rparr>,
      \<lparr>x1 = 2 * (W div 6), x2 = 3 * (W div 6), y1 = 0, y2 = H, color = (0, 255, 0), name = ''Green''\<rparr>,
      \<lparr>x1 = 3 * (W div 6), x2 = 4 * (W div 6), y1 = 0, y2 = H, color = (0, 0, 255), name = ''Red''\<rparr>,
      \<lparr>x1 = 4 * (W div 6), x2 = 5 * (W div 6), y1 = 0, y2 = H, color = (0, 255, 255), name = ''Yellow''\<rparr>,
      \<lparr>x1 = 5 * (W div 6), x2 = 6 * (W div 6), y1 = 0, y2 = H, color = (0, 0, 0), name = ''Eraser''\<rparr>]"
  by (simp add: ColorPalette_init_def palette_colors_def Let_def)

lemma header_height_init: "header_height (ColorPalette_init W H) = H"
  by (simp add: ColorPalette_init_def Let_def)

lemma check_selection_init:
  "check_selection (ColorPalette_init W H) x y =
     (if H < y then None
      else if 0 \<le> x \<and> x \<le> W div 6 \<and> 0 \<le> y \<and> y \<le> H then Some (255, 0, 255)
      else if W div 6 \<le> x \<and> x \<le> 2 * (W div 6) \<and> 0 \<le> y \<and> y \<le> H then Some (255, 0, 0)
      else if 2 * (W div 6) \<le> x \<and> x \<le> 3 * (W div 6) \<and> 0 \<le> y \<and> y \<le> H then Some (0, 255, 0)
      else if 3 * (W div 6) \<le> x \<and> x \<le> 4 * (W div 6) \<and> 0 \<le> y \<and> y \<le> H then Some (0, 0, 255)
      else if 4 * (W div 6) \<le> x \<and> x \<le> 5 * (W div 6) \<and> 0 \<le> y \<and> y \<le> H then Some (0, 255, 255)
      else if 5 * (W div 6) \<le> x \<and> x \<le> 6 * (W div 6) \<and> 0 \<le> y \<and> y \<le> H then Some (0, 0, 0)
      else None)"
  by (simp add: check_selection_def color_boxes_init header_height_init)

text \<open>
  C9. Selection is a function of the point, and its value is none or the colour of one of
  the six configured swatches. With a frame at least six pixels wide, the x-coordinate
  \<open>(i + 1) * box_width\<close> that the closed boxes \<open>i\<close> and \<open>i + 1\<close> share selects swatch
  \<open>i\<close>, the lower index, at every height of the header band. When the frame width is
  not a multiple of 6, every point with \<open>x\<close> beyond \<open>6 * (W div 6)\<close> selects none.
\<close>

theorem check_selection_closed_first_match:
  "(check_selection (ColorPalette_init W H) x y = None
      \<or> check_selection (ColorPalette_init W H) x y \<in> Some ` snd ` set palette_colors)
   \<and> (6 \<le> W \<and> 0 \<le> y \<and> y \<le> H \<and> i < 5 \<longrightarrow>
        check_selection (ColorPalette_init W H) (int (Suc i) * (W div 6)) y
          = Some (snd (palette_colors ! i)))
   \<and> (W mod 6 \<noteq> 0 \<and> 6 * (W div 6) < x \<longrightarrow>
        check_selection (ColorPalette_init W H) x y = None)"
proof (intro conjI impI)
  show "check_selection (ColorPalette_init W H) x y = None
      \<or> check_selection (ColorPalette_init W H) x y \<in> Some ` snd ` set palette_colors"
    by (simp add: check_selection_init palette_colors_def)
next
  assume a: "6 \<le> W \<and> 0 \<le> y \<and> y \<le> H \<and> i < 5"
  then have bw: "0 < W div 6" by (simp add: pos_imp_zdiv_pos_iff)
  from a have "i = 0 \<or> i = 1 \<or> i = 2 \<or> i = 3 \<or> i = 4" by arith
  then show "check_selection (ColorPalette_init W H) (int (Suc i) * (W div 6)) y
          = Some (snd (palette_colors ! i))"
    using a bw by (auto simp add: check_selection_init palette_colors_def)
next
  assume a: "W mod 6 \<noteq> 0 \<and> 6 * (W div 6) < x"
  have "W div 6 < 0 \<or> 0 \<le> W div 6" by arith
  then show "check_selection (ColorPalette_init W H) x y = None"
    using a by (auto simp add: check_selection_init)
qed

theorem check_selection_closed_first_match_witness:
  "check_selection (ColorPalette_init 1280 100) (int (Suc 0) * (1280 div 6)) 0
     = Some (snd (palette_colors ! 0))
   \<and> check_selection (ColorPalette_init 1280 100) 1279 0 = None"
  using check_selection_closed_first_match [of 1280 100 1279 0 0] by simp

text \<open>
  C6, as the code has it. A point below the header band (\<open>y > header_height\<close>) selects
  none whatever its \<open>x\<close>. A point with \<open>0 \<le> y \<le> header_height\<close> whose \<open>x\<close> lies in
  one of the six closed boxes selects the swatch of the first box that contains \<open>x\<close>,
  where box \<open>k\<close> spans \<open>[k * (W div 6), (k + 1) * (W div 6)]\<close>: the box width is the
  floor of \<open>W / 6\<close>, so the boxes reach \<open>6 * (W div 6)\<close> and not always \<open>W\<close>.
\<close>

theorem check_selection_boxes:
  "(H < y \<longrightarrow> check_selection (ColorPalette_init W H) x y = None)
   \<and> (0 \<le> y \<and> y \<le> H \<and> i < 6 \<and> int i * (W div 6) \<le> x \<and> x \<le> (int i + 1) * (W div 6) \<longrightarrow>
        (\<exists>j\<le>i. int j * (W div 6) \<le> x \<and> x \<le> (int j + 1) * (W div 6)
           \<and> (\<forall>k<j. \<not> (int k * (W div 6) \<le> x \<and> x \<le> (int k + 1) * (W div 6)))
           \<and> check_selection (ColorPalette_init W H) x y = Some (snd (palette_colors ! j))))"
proof (intro conjI impI)
  assume "H < y"
  then show "check_selection (ColorPalette_init W H) x y = None"
    by (simp add: check_selection_init)
next
  let ?B = "\<lambda>k::nat. int k * (W div 6) \<le> x \<and> x \<le> (int k + 1) * (W div 6)"
  assume a: "0 \<le> y \<and> y \<le> H \<and> i < 6 \<and> int i * (W div 6) \<le> x \<and> x \<le> (int i + 1) * (W div 6)"
  then have y: "0 \<le> y" "y \<le> H" by simp_all
  define j where "j = (LEAST k. ?B k)"
  from a have Bi: "?B i" by simp
  have Bj: "?B j" unfolding j_def using Bi by (rule LeastI)
  have ji: "j \<le> i" unfolding j_def using Bi by (rule Least_le)
  have least: "\<forall>k<j. \<not> ?B k" unfolding j_def using not_less_Least by blast
  have nb: "\<not> ?B k" if "k < j" for k using least that by blast
  from ji a have "j < 6" by simp
  then consider "j = 0" | "j = 1" | "j = 2" | "j = 3" | "j = 4" | "j = 5" by arith
  then have sel: "check_selection (ColorPalette_init W H) x y = Some (snd (palette_colors ! j))"
  proof cases
    case 1
    then show ?thesis using y Bj by (simp add: check_selection_init palette_colors_def)
  next
    case 2
    have "\<not> ?B 0" using nb [of 0] 2 by simp_all
    then show ?thesis using y Bj 2 by (auto simp add: check_selection_init palette_colors_def)
  next
    case 3
    have "\<not> ?B 0" "\<not> ?B 1" using nb [of 0] nb [of 1] 3 by simp_all
    then show ?thesis using y Bj 3 by (auto simp add: check_selection_init palette_colors_def)
  next
    case 4
    have "\<not> ?B 0" "\<not> ?B 1" "\<not> ?B 2" using nb [of 0] nb [of 1] nb [of 2] 4 by simp_all
    then show ?thesis using y Bj 4 by (auto simp add: check_selection_init palette_colors_def)
  next
    case 5
    have "\<not> ?B 0" "\<not> ?B 1" "\<not> ?B 2" "\<not> ?B 3"
      using nb [of 0] nb [of 1] nb [of 2] nb [of 3] 5 by simp_all
    then show ?thesis using y Bj 5 by (auto simp add: check_selection_init palette_colors_def)
  next
    case 6
    have "\<not> ?B 0" "\<not> ?B 1" "\<not> ?B 2" "\<not> ?B 3" "\<not> ?B 4"
      using nb [of 0] nb [of 1] nb [of 2] nb [of 3] nb [of 4] 6 by simp_all
    then show ?thesis using y Bj 6 by (auto simp add: check_selection_init palette_colors_def)
  qed
  from ji Bj least sel
  show "\<exists>j\<le>i. int j * (W div 6) \<le> x \<and> x \<le> (int j + 1) * (W div 6)
           \<and> (\<forall>k<j. \<not> (int k * (W div 6) \<le> x \<and> x \<le> (int k + 1) * (W div 6)))
           \<and> check_selection (ColorPalette_init W H) x y = Some (snd (palette_colors ! j))"
    by blast
qed

text \<open>
  At width 1280 and header height 100: \<open>(1280, 101)\<close> selects none, and \<open>x = 426\<close>, the
  right edge of box 1 and the left edge of box 2, selects a swatch of index at most 2.
\<close>

theorem check_selection_boxes_witness:
  "check_selection (ColorPalette_init 1280 100) 1280 101 = None
   \<and> (\<exists>j\<le>2. int j * (1280 div 6) \<le> 426 \<and> 426 \<le> (int j + 1) * (1280 div 6)
           \<and> check_selection (ColorPalette_init 1280 100) 426 40 = Some (snd (palette_colors ! j)))"
proof -
  have "\<exists>j\<le>2. int j * (1280 div 6) \<le> 426 \<and> 426 \<le> (int j + 1) * (1280 div 6)
           \<and> (\<forall>k<j. \<not> (int k * (1280 div 6) \<le> 426 \<and> 426 \<le> (int k + 1) * (1280 div 6)))
           \<and> check_selection (ColorPalette_init 1280 100) 426 40 = Some (snd (palette_colors ! j))"
    using check_selection_boxes [of 100 40 1280 426 2] by simp
  then have "\<exists>j\<le>2. int j * (1280 div 6) \<le> 426 \<and> 426 \<le> (int j + 1) * (1280 div 6)
           \<and> check_selection (ColorPalette_init 1280 100) 426 40 = Some (snd (palette_colors ! j))"
    by blast
  moreover have "check_selection (ColorPalette_init 1280 100) 1280 101 = None"
    using check_selection_boxes [of 100 101 1280 1280 0] by simp
  ultimately show ?thesis by blast
qed

text \<open>
  C6 as the specification words it fails in the desktop shell: the point \<open>(1279, 0)\<close> is
  inside the frame, in the header band and in the specification's last box
  \<open>[5 * 1280 / 6, 1280]\<close>, and selects none, because the program's last box ends at
  \<open>6 * (1280 div 6) = 1278\<close>.
\<close>

theorem check_selection_right_edge_counterexample:
  "spec_box main_CAMERA_WIDTH 5 1279 \<and> 1279 < main_CAMERA_WIDTH
   \<and> (0::int) \<le> header_height main_palette
   \<and> check_selection main_palette 1279 0 = None"
  by (simp add: spec_box_def main_palette_def main_CAMERA_WIDTH_def check_selection_init
        header_height_init)

section \<open>The classifier: what \<open>fingers_up\<close> computes\<close>

lemma fingers_up_hand_imp:
  "20 < length lms \<longrightarrow>
     fingers_up lms =
       Inr [if lm_x (lms ! 4) < lm_x (lms ! 3) then 1 else 0,
            if lm_y (lms ! 8) < lm_y (lms ! 6) then 1 else 0,
            if lm_y (lms ! 12) < lm_y (lms ! 10) then 1 else 0,
            if lm_y (lms ! 16) < lm_y (lms ! 14) then 1 else 0,
            if lm_y (lms ! 20) < lm_y (lms ! 18) then 1 else 0]"
  by (simp add: fingers_up_def item_def THUMB_TIP_def INDEX_TIP_def MIDDLE_TIP_def
        RING_TIP_def PINKY_TIP_def)

lemmas fingers_up_hand = fingers_up_hand_imp [rule_format]

lemma fingers_up_sample: "fingers_up sample_hand = Inr [0, 1, 0, 0, 0]"
  using fingers_up_hand [of sample_hand] by (simp add: sample_hand_def lm_x_def lm_y_def)

text \<open>
  C2. On the empty snapshot \<open>fingers_up\<close> returns \<open>[0, 0, 0, 0, 0]\<close>. On a snapshot of a
  hand (all of the landmarks 0..20 present, which is what \<open>find_position\<close> stores) it
  returns, in the order thumb, index, middle, ring, pinky: 1 for the thumb exactly when
  the x of landmark 4 is less than the x of landmark 3, and 1 for each other finger
  exactly when the y of its tip (8, 12, 16, 20) is less than the y of the landmark two
  positions before the tip.
\<close>

theorem fingers_up_classifier:
  "fingers_up [] = Inr [0, 0, 0, 0, 0]
   \<and> (20 < length lms \<longrightarrow>
        fingers_up lms =
          Inr [if lm_x (lms ! 4) < lm_x (lms ! 3) then 1 else 0,
               if lm_y (lms ! 8) < lm_y (lms ! 6) then 1 else 0,
               if lm_y (lms ! 12) < lm_y (lms ! 10) then 1 else 0,
               if lm_y (lms ! 16) < lm_y (lms ! 14) then 1 else 0,
               if lm_y (lms ! 20) < lm_y (lms ! 18) then 1 else 0])"
  using fingers_up_hand_imp [of lms] by (simp add: fingers_up_def)

theorem fingers_up_classifier_witness:
  "fingers_up sample_hand = Inr [0, 1, 0, 0, 0]"
  using fingers_up_classifier [of sample_hand] by (simp add: sample_hand_def lm_x_def lm_y_def)

section \<open>The gesture chains\<close>

lemma cv2_line_ok:
  "0 < t \<Longrightarrow> t \<le> MAX_THICKNESS \<Longrightarrow> cv2_line img a b c t = Inr (draw_segment img a b c t)"
  by (simp add: cv2_line_def)

lemma in_stroke_point: "in_stroke p p t p"
  by (simp add: in_stroke_def)

lemma pix_draw_segment:
  "pix (draw_segment img a b c t) p = (if inside img p \<and> in_stroke a b t p then c else pix img p)"
  by (simp add: draw_segment_def)

lemma main_drawing:
  assumes "0 < brush_thickness st" "brush_thickness st \<le> MAX_THICKNESS"
  shows "main_gesture st [0, 1, 0, 0, 0] (Some (x, y)) =
     Inr (st\<lparr>canvas := draw_segment (canvas st)
                  (if prev_x st = 0 \<and> prev_y st = 0 then (x, y) else (prev_x st, prev_y st))
                  (x, y) (draw_color st) (brush_thickness st),
             prev_x := x, prev_y := y\<rparr>)"
  using assms by (simp add: main_gesture_def cv2_line_ok)

lemma app_drawing:
  assumes "0 < brush_thickness st" "brush_thickness st \<le> MAX_THICKNESS"
  shows "app_gesture st [0, 1, 0, 0, 0] (Some (x, y)) =
     Inr (st\<lparr>canvas := draw_segment (canvas st)
                  (if prev_x st = 0 \<and> prev_y st = 0 then (x, y) else (prev_x st, prev_y st))
                  (x, y) (draw_color st) (brush_thickness st),
             prev_x := x, prev_y := y\<rparr>)"
  using assms by (simp add: app_gesture_def cv2_line_ok)

text \<open>
  C1. For every finger vector that is none of \<open>[0,1,1,0,0]\<close>, \<open>[0,1,0,0,0]\<close>,
  \<open>[1,1,1,1,1]\<close>, \<open>[0,0,0,0,0]\<close>, the gesture chain of either shell returns the state
  with the previous cursor reset to \<open>(0, 0)\<close> and nothing else changed: the canvas, the
  drawing colour and the thickness are as before. Of the 32 five-bit vectors, 28 are of
  this kind.
\<close>

theorem idle_vectors_reset_cursor_only:
  "(fingers \<notin> set active_patterns \<longrightarrow>
      main_gesture st fingers index_tip = Inr (st\<lparr>prev_x := 0, prev_y := 0\<rparr>)
      \<and> app_gesture st' fingers index_tip = Inr (st'\<lparr>prev_x := 0, prev_y := 0\<rparr>))
   \<and> length (filter (\<lambda>v. v \<notin> set active_patterns) finger_up_vectors) = 28"
proof (intro conjI impI)
  assume a: "fingers \<notin> set active_patterns"
  then show "main_gesture st fingers index_tip = Inr (st\<lparr>prev_x := 0, prev_y := 0\<rparr>)"
    by (simp add: main_gesture_def active_patterns_def)
  from a show "app_gesture st' fingers index_tip = Inr (st'\<lparr>prev_x := 0, prev_y := 0\<rparr>)"
    by (simp add: app_gesture_def active_patterns_def)
next
  show "length (filter (\<lambda>v. v \<notin> set active_patterns) finger_up_vectors) = 28"
    by (simp add: finger_up_vectors_def active_patterns_def numeral_eq_Suc)
qed

theorem idle_vectors_reset_cursor_only_witness:
  "main_gesture main_init [1, 0, 0, 0, 0] (Some (100, 100)) = Inr (main_init\<lparr>prev_x := 0, prev_y := 0\<rparr>)
   \<and> app_gesture app_init [1, 0, 0, 0, 0] (Some (100, 100)) = Inr (app_init\<lparr>prev_x := 0, prev_y := 0\<rparr>)"
  using idle_vectors_reset_cursor_only [of "[1, 0, 0, 0, 0]" main_init "Some (100, 100)" app_init]
  by (simp add: active_patterns_def)

text \<open>
  C3, as the code has it. In the Streamlit shell the vector \<open>[0,0,0,0,0]\<close> sets the
  eraser: the drawing colour becomes \<open>ERASER_COLOR\<close>, which is black, the thickness
  becomes the eraser thickness 50, the eraser flag is set and the previous cursor is
  reset. In the desktop shell the same vector reaches the final \<open>else\<close>: the previous
  cursor is reset and the colour and the thickness stay.
\<close>

theorem fist_eraser_in_app_only:
  "app_gesture st [0, 0, 0, 0, 0] index_tip =
     Inr (st\<lparr>is_eraser_mode := True, draw_color := ERASER_COLOR,
             brush_thickness := app_ERASER_THICKNESS, prev_x := 0, prev_y := 0\<rparr>)
   \<and> ERASER_COLOR = (0, 0, 0) \<and> app_ERASER_THICKNESS = 50
   \<and> main_gesture st' [0, 0, 0, 0, 0] index_tip = Inr (st'\<lparr>prev_x := 0, prev_y := 0\<rparr>)"
  by (simp add: app_gesture_def main_gesture_def ERASER_COLOR_def app_ERASER_THICKNESS_def)

text \<open>
  C3 as stated fails in the desktop shell: from its initial state a fist leaves the
  colour purple and the thickness 15, neither the eraser colour nor the eraser
  thickness.
\<close>

theorem fist_in_main_keeps_color_counterexample:
  "main_gesture main_init [0, 0, 0, 0, 0] (Some (100, 100)) = Inr (main_init\<lparr>prev_x := 0, prev_y := 0\<rparr>)
   \<and> draw_color (main_init\<lparr>prev_x := 0, prev_y := 0\<rparr>) = (255, 0, 255)
   \<and> (255, 0, 255) \<noteq> ERASER_COLOR
   \<and> brush_thickness (main_init\<lparr>prev_x := 0, prev_y := 0\<rparr>) = 15
   \<and> main_ERASER_THICKNESS = 50"
  by (simp add: main_gesture_def main_init_def ERASER_COLOR_def main_BRUSH_THICKNESS_def
        main_ERASER_THICKNESS_def)

text \<open>
  C7. \<open>clear_canvas\<close> of the Streamlit shell and the open-palm branch of either gesture
  chain leave a canvas of the shell's camera height and width whose every pixel is
  \<open>(0, 0, 0)\<close>, and clearing a second time gives the same result as clearing once.
\<close>

theorem clear_all_zero_idempotent:
  "pix (canvas (clear_canvas st)) p = (0, 0, 0)
   \<and> clear_canvas (clear_canvas st) = clear_canvas st
   \<and> main_gesture m [1, 1, 1, 1, 1] index_tip =
       Inr (m\<lparr>canvas := np_zeros main_CAMERA_HEIGHT main_CAMERA_WIDTH, prev_x := 0, prev_y := 0\<rparr>)
   \<and> main_gesture (m\<lparr>canvas := np_zeros main_CAMERA_HEIGHT main_CAMERA_WIDTH, prev_x := 0, prev_y := 0\<rparr>)
         [1, 1, 1, 1, 1] index_tip' =
       Inr (m\<lparr>canvas := np_zeros main_CAMERA_HEIGHT main_CAMERA_WIDTH, prev_x := 0, prev_y := 0\<rparr>)
   \<and> pix (np_zeros main_CAMERA_HEIGHT main_CAMERA_WIDTH) p = (0, 0, 0)
   \<and> app_gesture st [1, 1, 1, 1, 1] index_tip =
       Inr (st\<lparr>canvas := np_zeros app_CAMERA_HEIGHT app_CAMERA_WIDTH, prev_x := 0, prev_y := 0\<rparr>)
   \<and> app_gesture (st\<lparr>canvas := np_zeros app_CAMERA_HEIGHT app_CAMERA_WIDTH, prev_x := 0, prev_y := 0\<rparr>)
         [1, 1, 1, 1, 1] index_tip' =
       Inr (st\<lparr>canvas := np_zeros app_CAMERA_HEIGHT app_CAMERA_WIDTH, prev_x := 0, prev_y := 0\<rparr>)
   \<and> pix (np_zeros app_CAMERA_HEIGHT app_CAMERA_WIDTH) p = (0, 0, 0)
   \<and> rows (canvas (clear_canvas st)) = app_CAMERA_HEIGHT
   \<and> cols (canvas (clear_canvas st)) = app_CAMERA_WIDTH
   \<and> canvas (clear_canvas st) = np_zeros app_CAMERA_HEIGHT app_CAMERA_WIDTH
   \<and> clear_canvas st = st\<lparr>canvas := canvas (clear_canvas st)\<rparr>
   \<and> rows (np_zeros app_CAMERA_HEIGHT app_CAMERA_WIDTH) = 480
   \<and> cols (np_zeros app_CAMERA_HEIGHT app_CAMERA_WIDTH) = 640
   \<and> rows (np_zeros main_CAMERA_HEIGHT main_CAMERA_WIDTH) = 720
   \<and> cols (np_zeros main_CAMERA_HEIGHT main_CAMERA_WIDTH) = 1280"
  by (simp add: clear_canvas_def np_zeros_def main_gesture_def app_gesture_def
        app_CAMERA_HEIGHT_def app_CAMERA_WIDTH_def main_CAMERA_HEIGHT_def main_CAMERA_WIDTH_def)

section \<open>Strokes: the drawing branch across frames\<close>

text \<open>
  C4, as the code has it. With a valid thickness and the previous cursor at the
  sentinel, a Drawing frame at \<open>(a, b)\<close> calls \<open>cv2.line\<close> once, from \<open>(a, b)\<close> to
  \<open>(a, b)\<close>: the canvas gets the brush's disc at the cursor (the cursor pixel takes the
  drawing colour when it is inside the canvas) and the cursor is recorded. When
  \<open>(a, b)\<close> is not \<open>(0, 0)\<close>, the next Drawing frame at \<open>(c, d)\<close> calls \<open>cv2.line\<close>
  once, from \<open>(a, b)\<close> to \<open>(c, d)\<close>. Both shells.
\<close>

theorem first_drawing_frame_dot_then_segment:
  assumes "0 < brush_thickness st" "brush_thickness st \<le> MAX_THICKNESS"
    and "prev_x st = 0" "prev_y st = 0" and "(a, b) \<noteq> (0, 0)"
    and "0 < brush_thickness st'" "brush_thickness st' \<le> MAX_THICKNESS"
    and "prev_x st' = 0" "prev_y st' = 0"
  defines "s1 \<equiv> st\<lparr>canvas := draw_segment (canvas st) (a, b) (a, b) (draw_color st) (brush_thickness st),
                    prev_x := a, prev_y := b\<rparr>"
    and "s1' \<equiv> st'\<lparr>canvas := draw_segment (canvas st') (a, b) (a, b) (draw_color st') (brush_thickness st'),
                    prev_x := a, prev_y := b\<rparr>"
  shows "main_gesture st [0, 1, 0, 0, 0] (Some (a, b)) = Inr s1
    \<and> (inside (canvas st) (a, b) \<longrightarrow> pix (canvas s1) (a, b) = draw_color st)
    \<and> main_gesture s1 [0, 1, 0, 0, 0] (Some (c, d)) =
        Inr (s1\<lparr>canvas := draw_segment (canvas s1) (a, b) (c, d) (draw_color st) (brush_thickness st),
                prev_x := c, prev_y := d\<rparr>)
    \<and> app_gesture st' [0, 1, 0, 0, 0] (Some (a, b)) = Inr s1'
    \<and> (inside (canvas st') (a, b) \<longrightarrow> pix (canvas s1') (a, b) = draw_color st')
    \<and> app_gesture s1' [0, 1, 0, 0, 0] (Some (c, d)) =
        Inr (s1'\<lparr>canvas := draw_segment (canvas s1') (a, b) (c, d) (draw_color st') (brush_thickness st'),
                prev_x := c, prev_y := d\<rparr>)"
proof -
  have m1: "main_gesture st [0, 1, 0, 0, 0] (Some (a, b)) = Inr s1"
    using assms(1-4) by (simp add: main_drawing s1_def)
  have m2: "inside (canvas st) (a, b) \<Longrightarrow> pix (canvas s1) (a, b) = draw_color st"
    by (simp add: s1_def pix_draw_segment in_stroke_point)
  have t1: "0 < brush_thickness s1" "brush_thickness s1 \<le> MAX_THICKNESS"
    using assms(1,2) by (simp_all add: s1_def)
  have f1: "prev_x s1 = a" "prev_y s1 = b" "draw_color s1 = draw_color st"
    "brush_thickness s1 = brush_thickness st"
    by (simp_all add: s1_def)
  have m3: "main_gesture s1 [0, 1, 0, 0, 0] (Some (c, d)) =
        Inr (s1\<lparr>canvas := draw_segment (canvas s1) (a, b) (c, d) (draw_color st) (brush_thickness st),
                prev_x := c, prev_y := d\<rparr>)"
    using assms(5) by (auto simp add: main_drawing [OF t1] f1)
  have a1: "app_gesture st' [0, 1, 0, 0, 0] (Some (a, b)) = Inr s1'"
    using assms(6-9) by (simp add: app_drawing s1'_def)
  have a2: "inside (canvas st') (a, b) \<Longrightarrow> pix (canvas s1') (a, b) = draw_color st'"
    by (simp add: s1'_def pix_draw_segment in_stroke_point)
  have t1': "0 < brush_thickness s1'" "brush_thickness s1' \<le> MAX_THICKNESS"
    using assms(6,7) by (simp_all add: s1'_def)
  have f1': "prev_x s1' = a" "prev_y s1' = b" "draw_color s1' = draw_color st'"
    "brush_thickness s1' = brush_thickness st'"
    by (simp_all add: s1'_def)
  have a3: "app_gesture s1' [0, 1, 0, 0, 0] (Some (c, d)) =
        Inr (s1'\<lparr>canvas := draw_segment (canvas s1') (a, b) (c, d) (draw_color st') (brush_thickness st'),
                prev_x := c, prev_y := d\<rparr>)"
    using assms(5) by (auto simp add: app_drawing [OF t1'] f1')
  from m1 m2 m3 a1 a2 a3 show ?thesis by simp
qed

text \<open>The desktop shell from its initial state: a first point \<open>(100, 100)\<close>, then \<open>(110, 100)\<close>.\<close>

theorem first_drawing_frame_dot_then_segment_witness:
  "main_gesture main_init [0, 1, 0, 0, 0] (Some (100, 100)) =
     Inr (main_init\<lparr>canvas := draw_segment (canvas main_init) (100, 100) (100, 100) (255, 0, 255) 15,
                    prev_x := 100, prev_y := 100\<rparr>)
   \<and> main_gesture
        (main_init\<lparr>canvas := draw_segment (canvas main_init) (100, 100) (100, 100) (255, 0, 255) 15,
                    prev_x := 100, prev_y := 100\<rparr>)
        [0, 1, 0, 0, 0] (Some (110, 100)) =
     Inr (main_init\<lparr>canvas :=
            draw_segment (draw_segment (canvas main_init) (100, 100) (100, 100) (255, 0, 255) 15)
              (100, 100) (110, 100) (255, 0, 255) 15,
          prev_x := 110, prev_y := 100\<rparr>)"
  using first_drawing_frame_dot_then_segment [of main_init 100 100 app_init 110 100]
  by (simp add: main_init_def app_init_def MAX_THICKNESS_def main_BRUSH_THICKNESS_def
        app_BRUSH_THICKNESS_def)

text \<open>
  C4 as stated fails on the first frame: in the desktop shell's initial state (blank
  canvas, purple, thickness 15, cursor unset) a Drawing frame at \<open>(100, 100)\<close> paints
  the canvas pixel \<open>(100, 100)\<close> purple, so the canvas is not left unchanged.
\<close>

theorem first_drawing_frame_paints_counterexample:
  "main_gesture main_init [0, 1, 0, 0, 0] (Some (100, 100)) =
     Inr (main_init\<lparr>canvas := draw_segment (canvas main_init) (100, 100) (100, 100) (255, 0, 255) 15,
                    prev_x := 100, prev_y := 100\<rparr>)
   \<and> pix (draw_segment (canvas main_init) (100, 100) (100, 100) (255, 0, 255) 15) (100, 100) = (255, 0, 255)
   \<and> pix (canvas main_init) (100, 100) = (0, 0, 0)"
  by (simp add: main_gesture_def main_init_def cv2_line_def MAX_THICKNESS_def main_BRUSH_THICKNESS_def
        pix_draw_segment in_stroke_point inside_def np_zeros_def main_CAMERA_HEIGHT_def
        main_CAMERA_WIDTH_def)

text \<open>
  C10. With a valid thickness, a Drawing frame whose fingertip is \<open>(0, 0)\<close> ends with the
  previous cursor equal to the sentinel \<open>(0, 0)\<close>, and the Drawing frame that follows,
  at any \<open>(c, d)\<close>, calls \<open>cv2.line\<close> from \<open>(c, d)\<close> to \<open>(c, d)\<close>: the stroke starts
  afresh, and no segment from \<open>(0, 0)\<close> to \<open>(c, d)\<close> is drawn. Both shells.
\<close>

theorem origin_breaks_stroke:
  assumes "0 < brush_thickness st" "brush_thickness st \<le> MAX_THICKNESS"
    and "0 < brush_thickness st'" "brush_thickness st' \<le> MAX_THICKNESS"
  defines "s1 \<equiv> st\<lparr>canvas := draw_segment (canvas st) (prev_x st, prev_y st) (0, 0)
                               (draw_color st) (brush_thickness st),
                    prev_x := 0, prev_y := 0\<rparr>"
    and "s1' \<equiv> st'\<lparr>canvas := draw_segment (canvas st') (prev_x st', prev_y st') (0, 0)
                               (draw_color st') (brush_thickness st'),
                    prev_x := 0, prev_y := 0\<rparr>"
  shows "main_gesture st [0, 1, 0, 0, 0] (Some (0, 0)) = Inr s1
    \<and> prev_x s1 = 0 \<and> prev_y s1 = 0
    \<and> main_gesture s1 [0, 1, 0, 0, 0] (Some (c, d)) =
        Inr (s1\<lparr>canvas := draw_segment (canvas s1) (c, d) (c, d) (draw_color st) (brush_thickness st),
                prev_x := c, prev_y := d\<rparr>)
    \<and> app_gesture st' [0, 1, 0, 0, 0] (Some (0, 0)) = Inr s1'
    \<and> prev_x s1' = 0 \<and> prev_y s1' = 0
    \<and> app_gesture s1' [0, 1, 0, 0, 0] (Some (c, d)) =
        Inr (s1'\<lparr>canvas := draw_segment (canvas s1') (c, d) (c, d) (draw_color st') (brush_thickness st'),
                prev_x := c, prev_y := d\<rparr>)"
proof -
  have m1: "main_gesture st [0, 1, 0, 0, 0] (Some (0, 0)) = Inr s1"
    using assms(1,2) by (auto simp add: main_drawing s1_def)
  have f1: "prev_x s1 = 0" "prev_y s1 = 0" "draw_color s1 = draw_color st"
    "brush_thickness s1 = brush_thickness st"
    by (simp_all add: s1_def)
  have t1: "0 < brush_thickness s1" "brush_thickness s1 \<le> MAX_THICKNESS"
    using assms(1,2) by (simp_all add: f1)
  have m3: "main_gesture s1 [0, 1, 0, 0, 0] (Some (c, d)) =
        Inr (s1\<lparr>canvas := draw_segment (canvas s1) (c, d) (c, d) (draw_color st) (brush_thickness st),
                prev_x := c, prev_y := d\<rparr>)"
    by (simp add: main_drawing [OF t1] f1)
  have a1: "app_gesture st' [0, 1, 0, 0, 0] (Some (0, 0)) = Inr s1'"
    using assms(3,4) by (auto simp add: app_drawing s1'_def)
  have f1': "prev_x s1' = 0" "prev_y s1' = 0" "draw_color s1' = draw_color st'"
    "brush_thickness s1' = brush_thickness st'"
    by (simp_all add: s1'_def)
  have t1': "0 < brush_thickness s1'" "brush_thickness s1' \<le> MAX_THICKNESS"
    using assms(3,4) by (simp_all add: f1')
  have a3: "app_gesture s1' [0, 1, 0, 0, 0] (Some (c, d)) =
        Inr (s1'\<lparr>canvas := draw_segment (canvas s1') (c, d) (c, d) (draw_color st') (brush_thickness st'),
                prev_x := c, prev_y := d\<rparr>)"
    by (simp add: app_drawing [OF t1'] f1')
  from m1 f1(1,2) m3 a1 f1'(1,2) a3 show ?thesis by simp
qed

text \<open>The Streamlit shell from its initial state: a fingertip at \<open>(0, 0)\<close>, then at \<open>(3, 4)\<close>.\<close>

theorem origin_breaks_stroke_witness:
  "app_gesture app_init [0, 1, 0, 0, 0] (Some (0, 0)) =
     Inr (app_init\<lparr>canvas := draw_segment (canvas app_init) (0, 0) (0, 0) (255, 0, 255) 15\<rparr>)
   \<and> app_gesture (app_init\<lparr>canvas := draw_segment (canvas app_init) (0, 0) (0, 0) (255, 0, 255) 15\<rparr>)
        [0, 1, 0, 0, 0] (Some (3, 4)) =
     Inr (app_init\<lparr>canvas :=
            draw_segment (draw_segment (canvas app_init) (0, 0) (0, 0) (255, 0, 255) 15)
              (3, 4) (3, 4) (255, 0, 255) 15,
          prev_x := 3, prev_y := 4\<rparr>)"
  using origin_breaks_stroke [of main_init app_init 3 4]
  by (simp add: main_init_def app_init_def MAX_THICKNESS_def main_BRUSH_THICKNESS_def
        app_BRUSH_THICKNESS_def)

section \<open>Whole frames\<close>

lemma get_finger_tip_hand:
  "20 < length lms \<Longrightarrow> get_finger_tip lms (Suc 0) = Inr (Some (lm_x (lms ! 8), lm_y (lms ! 8)))"
  by (cases lms) (simp_all add: get_finger_tip_def item_def TIP_IDS_def)

lemma main_frame_hand:
  "20 < length lms \<Longrightarrow> fingers_up lms = Inr fingers \<Longrightarrow>
     main_frame st lms = main_gesture st fingers (Some (lm_x (lms ! 8), lm_y (lms ! 8)))"
  by (cases lms) (simp_all add: main_frame_def get_finger_tip_hand count_fingers_def)

lemma app_recv_hand:
  "20 < length lms \<Longrightarrow> fingers_up lms = Inr fingers \<Longrightarrow>
     app_recv st lms = app_gesture st fingers (Some (lm_x (lms ! 8), lm_y (lms ! 8)))"
  by (cases lms) (simp_all add: app_recv_def get_finger_tip_hand count_fingers_def)

lemma main_gesture_not_drawing:
  "fingers \<noteq> [0, 1, 0, 0, 0] \<Longrightarrow>
     \<exists>s. main_gesture st fingers (Some p) = Inr s \<and> prev_x s = 0 \<and> prev_y s = 0"
  by (cases p) (auto simp add: main_gesture_def Let_def split: option.splits)

lemma app_gesture_not_drawing:
  "fingers \<noteq> [0, 1, 0, 0, 0] \<Longrightarrow>
     \<exists>s. app_gesture st fingers (Some p) = Inr s \<and> prev_x s = 0 \<and> prev_y s = 0"
  by (cases p) (auto simp add: app_gesture_def Let_def split: option.splits)

text \<open>
  With a hand in the frame and a finger vector other than the drawing one, both shells
  end the frame with the previous cursor at \<open>(0, 0)\<close>.
\<close>

lemma hand_frame_not_drawing_resets:
  assumes "20 < length lms" "fingers_up lms \<noteq> Inr [0, 1, 0, 0, 0]"
  shows "(\<exists>s. main_frame st lms = Inr s \<and> prev_x s = 0 \<and> prev_y s = 0)
      \<and> (\<exists>s. app_recv st' lms = Inr s \<and> prev_x s = 0 \<and> prev_y s = 0)"
proof -
  from assms obtain fingers where f: "fingers_up lms = Inr fingers" "fingers \<noteq> [0, 1, 0, 0, 0]"
    using fingers_up_hand [of lms] by auto
  from assms f show ?thesis
    by (simp add: main_frame_hand app_recv_hand main_gesture_not_drawing app_gesture_not_drawing)
qed

lemma sample_hand_moved_eq:
  "sample_hand_moved =
     [(0, 580, 310), (1, 620, 290), (2, 650, 260), (3, 660, 230), (4, 665, 210),
      (5, 600, 210), (6, 600, 160), (7, 600, 130), (8, 600, 100),
      (9, 580, 210), (10, 580, 190), (11, 580, 210), (12, 580, 230),
      (13, 560, 215), (14, 560, 200), (15, 560, 220), (16, 560, 235),
      (17, 540, 225), (18, 540, 210), (19, 540, 225), (20, 540, 240)]"
  by (simp add: sample_hand_moved_def sample_hand_def lm_x_def lm_y_def)

lemma fingers_up_sample_moved: "fingers_up sample_hand_moved = Inr [0, 1, 0, 0, 0]"
  using fingers_up_hand [of sample_hand_moved] by (simp add: sample_hand_moved_eq lm_x_def lm_y_def)

text \<open>
  C8 at a failing input. Every branch of the gesture chain other than the drawing one
  resets the previous cursor (\<open>hand_frame_not_drawing_resets\<close>), and the comments of
  \<open>main.py\<close> say "Reset when not drawing"; but a frame without a hand skips the chain,
  which has no \<open>else\<close>, and keeps the cursor. In the desktop shell, from the initial
  state: a Drawing frame on the sample hand records \<open>(320, 190)\<close>; the frame without a
  hand returns the same state, cursor \<open>(320, 190)\<close> and not \<open>(0, 0)\<close>; the Drawing
  frame on the moved hand then calls \<open>cv2.line\<close> from \<open>(320, 190)\<close> to \<open>(600, 100)\<close>
  and paints the pixel \<open>(460, 145)\<close>, where the fingertip never was.
\<close>

theorem no_hand_gap_bridged:
  "main_frame main_init sample_hand =
     Inr (main_init\<lparr>canvas := draw_segment (canvas main_init) (320, 190) (320, 190) (255, 0, 255) 15,
                    prev_x := 320, prev_y := 190\<rparr>)
   \<and> main_frame
       (main_init\<lparr>canvas := draw_segment (canvas main_init) (320, 190) (320, 190) (255, 0, 255) 15,
                    prev_x := 320, prev_y := 190\<rparr>) [] =
     Inr (main_init\<lparr>canvas := draw_segment (canvas main_init) (320, 190) (320, 190) (255, 0, 255) 15,
                    prev_x := 320, prev_y := 190\<rparr>)
   \<and> main_frame
       (main_init\<lparr>canvas := draw_segment (canvas main_init) (320, 190) (320, 190) (255, 0, 255) 15,
                    prev_x := 320, prev_y := 190\<rparr>) sample_hand_moved =
     Inr (main_init\<lparr>canvas :=
            draw_segment (draw_segment (canvas main_init) (320, 190) (320, 190) (255, 0, 255) 15)
              (320, 190) (600, 100) (255, 0, 255) 15,
          prev_x := 600, prev_y := 100\<rparr>)
   \<and> pix (draw_segment (draw_segment (canvas main_init) (320, 190) (320, 190) (255, 0, 255) 15)
              (320, 190) (600, 100) (255, 0, 255) 15) (460, 145) = (255, 0, 255)
   \<and> pix (draw_segment (canvas main_init) (320, 190) (320, 190) (255, 0, 255) 15) (460, 145) = (0, 0, 0)"
proof -
  let ?sA = "main_init\<lparr>canvas := draw_segment (canvas main_init) (320, 190) (320, 190) (255, 0, 255) 15,
                    prev_x := 320, prev_y := 190\<rparr>"
  have l: "20 < length sample_hand" by (simp add: sample_hand_def)
  have l': "20 < length sample_hand_moved" by (simp add: sample_hand_moved_eq)
  have t: "0 < brush_thickness main_init" "brush_thickness main_init \<le> MAX_THICKNESS"
    by (simp_all add: main_init_def main_BRUSH_THICKNESS_def MAX_THICKNESS_def)
  have t': "0 < brush_thickness ?sA" "brush_thickness ?sA \<le> MAX_THICKNESS"
    by (simp_all add: main_init_def main_BRUSH_THICKNESS_def MAX_THICKNESS_def)
  have tip: "lm_x (sample_hand ! 8) = 320" "lm_y (sample_hand ! 8) = 190"
    by (simp_all add: sample_hand_def lm_x_def lm_y_def)
  have tip': "lm_x (sample_hand_moved ! 8) = 600" "lm_y (sample_hand_moved ! 8) = 100"
    by (simp_all add: sample_hand_moved_eq lm_x_def lm_y_def)
  have f1: "main_frame main_init sample_hand = Inr ?sA"
    by (simp add: main_frame_hand [OF l fingers_up_sample] tip main_drawing [OF t])
       (simp add: main_init_def main_BRUSH_THICKNESS_def)
  have f2: "main_frame ?sA [] = Inr ?sA" by (simp add: main_frame_def)
  have f3: "main_frame ?sA sample_hand_moved =
     Inr (main_init\<lparr>canvas :=
            draw_segment (draw_segment (canvas main_init) (320, 190) (320, 190) (255, 0, 255) 15)
              (320, 190) (600, 100) (255, 0, 255) 15,
          prev_x := 600, prev_y := 100\<rparr>)"
    by (simp add: main_frame_hand [OF l' fingers_up_sample_moved] tip' main_drawing [OF t'])
       (simp add: main_init_def main_BRUSH_THICKNESS_def)
  have p1: "pix (draw_segment (draw_segment (canvas main_init) (320, 190) (320, 190) (255, 0, 255) 15)
              (320, 190) (600, 100) (255, 0, 255) 15) (460, 145) = (255, 0, 255)"
    by (simp add: pix_draw_segment in_stroke_def stroke_width_def inside_def draw_segment_def
          main_init_def np_zeros_def main_CAMERA_HEIGHT_def main_CAMERA_WIDTH_def)
  have p2: "pix (draw_segment (canvas main_init) (320, 190) (320, 190) (255, 0, 255) 15) (460, 145) = (0, 0, 0)"
    by (simp add: pix_draw_segment in_stroke_def stroke_width_def inside_def
          main_init_def np_zeros_def main_CAMERA_HEIGHT_def main_CAMERA_WIDTH_def)
  from f1 f2 f3 p1 p2 show ?thesis by simp
qed

section \<open>Compositing the canvas onto the camera frame\<close>

text \<open>
  Two values of the library models, for reference: the luminance of \<open>(17, 25, 13)\<close> is
  21, and the dot of thickness 15 at \<open>(100, 100)\<close> reaches \<open>(108, 100)\<close> and not
  \<open>(109, 100)\<close>.
\<close>

lemma bgr2gray_reference: "bgr2gray (17, 25, 13) = 21"
  by (simp add: bgr2gray_def)

lemma in_stroke_reference:
  "in_stroke (100, 100) (100, 100) 15 (108, 100) \<and> \<not> in_stroke (100, 100) (100, 100) 15 (109, 100)"
  by (simp add: in_stroke_def stroke_width_def)

lemma and_255: "(x :: 8 word) AND 255 = x"
proof -
  have "(255 :: 8 word) = - 1" by simp
  then show ?thesis by (simp only: and.right_neutral)
qed

lemma color_and_ones: "color_and c (255, 255, 255) = c"
  by (cases c) (simp add: color_and_def and_255)

lemma color_and_zeros: "color_and c (0, 0, 0) = (0, 0, 0)"
  by (cases c) (simp add: color_and_def)

lemma color_or_zeros_left: "color_or (0, 0, 0) c = c"
  by (cases c) (simp add: color_or_def)

lemma color_or_zeros_right: "color_or c (0, 0, 0) = c"
  by (cases c) (simp add: color_or_def)

lemma merge_canvas_pointwise:
  assumes "rows frm = rows cnv" "cols frm = cols cnv"
  shows "merge_canvas cnv frm =
     Inr \<lparr>rows = rows frm, cols = cols frm,
          pix = (\<lambda>p. if 20 < unat (bgr2gray (pix cnv p)) then pix cnv p
                      else color_or (pix frm p) (pix cnv p))\<rparr>"
  using assms
  by (auto simp add: merge_canvas_def Let_def cvtColor_BGR2GRAY_def threshold_BINARY_INV_def
        cvtColor_GRAY2BGR_def bitwise_and_def bitwise_or_def color_and_ones color_and_zeros
        color_or_zeros_left fun_eq_iff)

text \<open>
  The colours a canvas can hold. The drawing colour starts as a palette colour and is
  only ever replaced by a selected swatch or by \<open>ERASER_COLOR\<close>; the canvas starts as
  zeros and is only ever written by \<open>np.zeros\<close> and by \<open>cv2.line\<close> with the drawing
  colour. So the drawing colour and every canvas pixel stay palette colours, and of
  these only black has a luminance of 20 or less.
\<close>

lemma palette_set:
  "snd ` set palette_colors =
     {(255, 0, 255), (255, 0, 0), (0, 255, 0), (0, 0, 255), (0, 255, 255), (0, 0, 0)}"
  by (simp add: palette_colors_def)

lemma palette_luminance:
  assumes "c \<in> snd ` set palette_colors"
  shows "unat (bgr2gray c) \<le> 20 \<longleftrightarrow> c = (0, 0, 0)"
  using assms unfolding palette_set by (auto simp add: bgr2gray_def)

lemma check_selection_palette:
  "check_selection (ColorPalette_init W H) x y = Some c \<Longrightarrow> c \<in> snd ` set palette_colors"
  unfolding palette_set by (simp add: check_selection_init split: if_splits)

lemma draw_segment_palette:
  "\<forall>p. pix img p \<in> S \<Longrightarrow> c \<in> S \<Longrightarrow> \<forall>p. pix (draw_segment img a b c t) p \<in> S"
  by (simp add: pix_draw_segment)

lemma np_zeros_palette: "\<forall>p. pix (np_zeros h w) p \<in> snd ` set palette_colors"
  by (simp add: palette_set np_zeros_def)

lemma main_gesture_keeps:
  assumes "draw_color st \<in> S" and "\<forall>p. pix (canvas st) p \<in> S" and "(0, 0, 0) \<in> S"
    and sel: "\<And>x y c. check_selection main_palette x y = Some c \<Longrightarrow> c \<in> S"
    and "main_gesture st fingers index_tip = Inr s"
  shows "draw_color s \<in> S \<and> (\<forall>p. pix (canvas s) p \<in> S)"
proof -
  consider "fingers = [0, 1, 1, 0, 0]" | "fingers = [0, 1, 0, 0, 0]" | "fingers = [1, 1, 1, 1, 1]"
    | "fingers \<noteq> [0, 1, 1, 0, 0]" "fingers \<noteq> [0, 1, 0, 0, 0]" "fingers \<noteq> [1, 1, 1, 1, 1]"
    by blast
  then show ?thesis
  proof cases
    case 1
    with assms(1,2,5) sel show ?thesis
      by (auto simp add: main_gesture_def Let_def split: option.splits)
  next
    case 2
    with assms(1,2,5) show ?thesis
      by (auto simp add: main_gesture_def Let_def cv2_line_def pix_draw_segment
            split: option.splits if_splits)
  next
    case 3
    with assms(1,3,5) show ?thesis
      by (auto simp add: main_gesture_def np_zeros_def)
  next
    case 4
    with assms(1,2,5) show ?thesis
      by (auto simp add: main_gesture_def)
  qed
qed

lemma app_gesture_keeps:
  assumes "draw_color st \<in> S" and "\<forall>p. pix (canvas st) p \<in> S" and "(0, 0, 0) \<in> S"
    and sel: "\<And>x y c. check_selection app_palette x y = Some c \<Longrightarrow> c \<in> S"
    and "app_gesture st fingers index_tip = Inr s"
  shows "draw_color s \<in> S \<and> (\<forall>p. pix (canvas s) p \<in> S)"
proof -
  consider "fingers = [0, 1, 1, 0, 0]" | "fingers = [0, 1, 0, 0, 0]" | "fingers = [1, 1, 1, 1, 1]"
    | "fingers = [0, 0, 0, 0, 0]"
    | "fingers \<noteq> [0, 1, 1, 0, 0]" "fingers \<noteq> [0, 1, 0, 0, 0]" "fingers \<noteq> [1, 1, 1, 1, 1]"
      "fingers \<noteq> [0, 0, 0, 0, 0]"
    by blast
  then show ?thesis
  proof cases
    case 1
    with assms(1,2,3,5) sel show ?thesis
      by (auto simp add: app_gesture_def Let_def ERASER_COLOR_def split: option.splits if_splits)
  next
    case 2
    with assms(1,2,5) show ?thesis
      by (auto simp add: app_gesture_def Let_def cv2_line_def pix_draw_segment
            split: option.splits if_splits)
  next
    case 3
    with assms(1,3,5) show ?thesis
      by (auto simp add: app_gesture_def np_zeros_def)
  next
    case 4
    with assms(2,3,5) show ?thesis
      by (auto simp add: app_gesture_def ERASER_COLOR_def)
  next
    case 5
    with assms(1,2,5) show ?thesis
      by (auto simp add: app_gesture_def)
  qed
qed

lemma black_palette: "(0, 0, 0) \<in> snd ` set palette_colors"
  by (simp add: palette_set)

lemma main_gesture_palette:
  assumes "draw_color st \<in> snd ` set palette_colors"
    and "\<forall>p. pix (canvas st) p \<in> snd ` set palette_colors"
    and "main_gesture st fingers index_tip = Inr s"
  shows "draw_color s \<in> snd ` set palette_colors
     \<and> (\<forall>p. pix (canvas s) p \<in> snd ` set palette_colors)"
  using assms(1,2) black_palette _ assms(3)
  by (rule main_gesture_keeps) (simp add: main_palette_def check_selection_palette)

lemma app_gesture_palette:
  assumes "draw_color st \<in> snd ` set palette_colors"
    and "\<forall>p. pix (canvas st) p \<in> snd ` set palette_colors"
    and "app_gesture st fingers index_tip = Inr s"
  shows "draw_color s \<in> snd ` set palette_colors
     \<and> (\<forall>p. pix (canvas s) p \<in> snd ` set palette_colors)"
  using assms(1,2) black_palette _ assms(3)
  by (rule app_gesture_keeps) (simp add: app_palette_def check_selection_palette)

lemma main_frame_palette:
  assumes "draw_color st \<in> snd ` set palette_colors"
    and "\<forall>p. pix (canvas st) p \<in> snd ` set palette_colors"
    and "main_frame st lms = Inr s"
  shows "draw_color s \<in> snd ` set palette_colors
     \<and> (\<forall>p. pix (canvas s) p \<in> snd ` set palette_colors)"
proof (cases "length lms = 0")
  case True
  with assms show ?thesis by (simp add: main_frame_def)
next
  case False
  with assms(3) obtain fingers index_tip where "main_gesture st fingers index_tip = Inr s"
    by (auto simp add: main_frame_def split: sum.splits)
  with assms(1,2) show ?thesis by (rule main_gesture_palette)
qed

lemma app_recv_palette:
  assumes "draw_color st \<in> snd ` set palette_colors"
    and "\<forall>p. pix (canvas st) p \<in> snd ` set palette_colors"
    and "app_recv st lms = Inr s"
  shows "draw_color s \<in> snd ` set palette_colors
     \<and> (\<forall>p. pix (canvas s) p \<in> snd ` set palette_colors)"
proof (cases "length lms = 0")
  case True
  with assms show ?thesis by (simp add: app_recv_def)
next
  case False
  with assms(3) obtain fingers index_tip where "app_gesture st fingers index_tip = Inr s"
    by (auto simp add: app_recv_def split: sum.splits)
  with assms(1,2) show ?thesis by (rule app_gesture_palette)
qed

lemma init_palette:
  "draw_color main_init \<in> snd ` set palette_colors"
  "\<forall>p. pix (canvas main_init) p \<in> snd ` set palette_colors"
  "draw_color app_init \<in> snd ` set palette_colors"
  "\<forall>p. pix (canvas app_init) p \<in> snd ` set palette_colors"
  by (simp_all add: main_init_def app_init_def palette_set np_zeros_def)

lemma clear_canvas_palette:
  "draw_color st \<in> snd ` set palette_colors \<Longrightarrow>
     draw_color (clear_canvas st) \<in> snd ` set palette_colors
     \<and> (\<forall>p. pix (canvas (clear_canvas st)) p \<in> snd ` set palette_colors)"
  using np_zeros_palette by (simp add: clear_canvas_def)

text \<open>
  C5. On a canvas the shells can hold (every pixel a palette colour, see
  \<open>init_palette\<close>, \<open>main_frame_palette\<close>, \<open>app_recv_palette\<close> and
  \<open>clear_canvas_palette\<close>), merged onto a camera frame of the same shape, the merge
  succeeds with that shape and every pixel of the result is the camera pixel unchanged
  when the canvas pixel is background, that is when its luminance is at most 20, and
  the canvas pixel otherwise.
\<close>

theorem merge_canvas_shell_canvas:
  assumes "rows frm = rows cnv" "cols frm = cols cnv"
    and "\<forall>p. pix cnv p \<in> snd ` set palette_colors"
  shows "\<exists>out. merge_canvas cnv frm = Inr out
        \<and> rows out = rows frm \<and> cols out = cols frm
        \<and> (\<forall>p. pix out p =
              (if unat (bgr2gray (pix cnv p)) \<le> 20 then pix frm p else pix cnv p))"
proof -
  let ?out = "\<lparr>rows = rows frm, cols = cols frm,
          pix = (\<lambda>p. if 20 < unat (bgr2gray (pix cnv p)) then pix cnv p
                      else color_or (pix frm p) (pix cnv p))\<rparr>"
  have m: "merge_canvas cnv frm = Inr ?out"
    using assms(1,2) by (rule merge_canvas_pointwise)
  have "pix ?out p = (if unat (bgr2gray (pix cnv p)) \<le> 20 then pix frm p else pix cnv p)" for p
  proof (cases "unat (bgr2gray (pix cnv p)) \<le> 20")
    case True
    then have "pix cnv p = (0, 0, 0)" using assms(3) palette_luminance by blast
    with True show ?thesis by (simp add: color_or_zeros_right)
  next
    case False
    then show ?thesis by simp
  qed
  with m show ?thesis by simp
qed

text \<open>
  A red dot drawn at \<open>(5, 5)\<close> of a blank 640 x 480 canvas, over a frame that is
  \<open>(10, 20, 30)\<close> everywhere: the result is red at \<open>(5, 5)\<close> and the frame's colour at
  \<open>(300, 300)\<close>.
\<close>

theorem merge_canvas_shell_canvas_witness:
  "\<exists>out. merge_canvas (draw_segment (np_zeros 480 640) (5, 5) (5, 5) (0, 0, 255) 15)
            (solid_frame 480 640 (10, 20, 30)) = Inr out
     \<and> pix out (5, 5) = (0, 0, 255) \<and> pix out (300, 300) = (10, 20, 30)"
proof -
  let ?c = "draw_segment (np_zeros 480 640) (5, 5) (5, 5) (0, 0, 255) 15"
  let ?f = "solid_frame 480 640 (10, 20, 30)"
  have d: "rows ?f = rows ?c" "cols ?f = cols ?c"
    by (simp_all add: draw_segment_def np_zeros_def solid_frame_def)
  have i: "\<forall>p. pix ?c p \<in> snd ` set palette_colors"
    by (rule draw_segment_palette [OF np_zeros_palette]) (simp add: palette_set)
  have v: "pix ?c (5, 5) = (0, 0, 255)"
    by (simp add: pix_draw_segment in_stroke_point inside_def np_zeros_def)
  have z: "pix ?c (300, 300) = (0, 0, 0)"
    by (simp add: pix_draw_segment in_stroke_def stroke_width_def inside_def np_zeros_def)
  from merge_canvas_shell_canvas [OF d i] obtain out where
    o: "merge_canvas ?c ?f = Inr out"
      "\<forall>p. pix out p = (if unat (bgr2gray (pix ?c p)) \<le> 20 then pix ?f p else pix ?c p)"
    by blast
  have "pix out (5, 5) = (0, 0, 255)" using o(2) v by (simp add: bgr2gray_def)
  moreover have "pix out (300, 300) = (10, 20, 30)"
    using o(2) z by (simp add: bgr2gray_def solid_frame_def)
  ultimately show ?thesis using o(1) by blast
qed

end
